theory Spec2Isabelle
  imports Main "HOL-Library.Word"
begin

section \<open>The traffic-fork engine of \<^verbatim>\<open>src/forktraffic/forktraffic.go\<close>\<close>

text \<open>
  Go strings are byte sequences: \<^typ>\<open>string\<close> (a list of 8-bit characters), \<open>len\<close> is
  \<^const>\<open>length\<close> and \<open>s[:n]\<close> is \<^const>\<open>take\<close>. A runtime panic of the Go code is
  a value of type \<open>panic\<close>; a function that can panic returns \<open>panic + 'a\<close>.
\<close>

datatype panic = RandIntArgument | IndexOutOfRange

subsection \<open>Strings\<close>

text \<open>
  \<open>strings.EqualFold\<close> on the names this program compares: cookie names, header keys and
  fixed-length prefixes measured in bytes against ASCII literals. There the Unicode case
  folding of Go is equality after mapping \<open>A..Z\<close> to \<open>a..z\<close>.
\<close>

definition toLower :: "char \<Rightarrow> char" where
  "toLower c =
    (case map_of (zip ''ABCDEFGHIJKLMNOPQRSTUVWXYZ'' ''abcdefghijklmnopqrstuvwxyz'') c of
       None \<Rightarrow> c
     | Some l \<Rightarrow> l)"

definition EqualFold :: "string \<Rightarrow> string \<Rightarrow> bool" where
  "EqualFold s t = (map toLower s = map toLower t)"

subsection \<open>Random draws (\<open>randInt\<close>, lines 32-35)\<close>

text \<open>
  \<open>randInt maxRand\<close> asks \<open>crypto/rand.Int\<close> for a uniform value below \<open>maxRand\<close>; that
  library call panics when its bound is not positive. The second argument of the model is
  the entropy delivered by the random source at this call; the value returned is it reduced
  into the range, so that every value below the bound is a possible outcome and no other.
  Every call site passes a length, a guarded difference of lengths or 256, hence a \<open>nat\<close>.
\<close>

definition randInt :: "nat \<Rightarrow> nat \<Rightarrow> panic + nat" where
  "randInt maxRand draw = (if maxRand = 0 then Inl RandIntArgument else Inr (draw mod maxRand))"

subsection \<open>Requests, URLs and cookies\<close>

text \<open>
  \<open>url.URL\<close> values are reached through pointers (\<open>*url.URL\<close>); two requests, or a request
  and the manager, may hold the same pointer. The URLs therefore live in a store indexed by
  address. Every \<open>*url.URL\<close> of the program is the result of a successful parse and is
  never nil, so the store is total.
\<close>

record url =
  Scheme :: string
  Host :: string
  Path :: string
  RawQuery :: string

type_synonym url_ptr = nat
type_synonym url_store = "url_ptr \<Rightarrow> url"

text \<open>\<open>http.Cookie\<close>; \<open>Expires\<close> is a \<open>time.Time\<close>, kept as its \<open>UnixNano()\<close>.\<close>

record cookie =
  Name :: string
  Value :: string
  Expires :: int
  MaxAge :: int

text \<open>
  \<open>http.Header\<close> is a Go map from key to the list of values; ranging over it visits the
  keys in an order chosen by the runtime. The association list is the map in the order
  in which this run visits it; keys are distinct.

  \<open>http.Request\<close>: \<open>Cookies\<close> is what the method \<open>req.Cookies()\<close> returns (the parsed
  \<open>Cookie\<close> lines) and what \<open>AddCookie\<close> appends to; parsing and printing of
  that line are \<open>net/http\<close>'s. \<open>Body\<close> is \<open>None\<close> for a nil reader.
\<close>

type_synonym header = "(string \<times> string list) list"

record request =
  Method :: string
  URL :: url_ptr
  ReqHost :: string
  Header :: header
  Cookies :: "cookie list"
  Body :: "string option"

text \<open>\<open>Header.Set\<close> replaces the values of a key, \<open>Header.Add\<close> appends one.\<close>

fun Header_Set :: "header \<Rightarrow> string \<Rightarrow> string \<Rightarrow> header" where
  "Header_Set [] k v = [(k, [v])]"
| "Header_Set ((k', vs) # h) k v = (if k' = k then (k, [v]) # h else (k', vs) # Header_Set h k v)"

fun Header_Add :: "header \<Rightarrow> string \<Rightarrow> string \<Rightarrow> header" where
  "Header_Add [] k v = [(k, [v])]"
| "Header_Add ((k', vs) # h) k v = (if k' = k then (k, vs @ [v]) # h else (k', vs) # Header_Add h k v)"

text \<open>\<open>h[key]\<close>: the values of a key, nil (the empty list) when absent.\<close>

fun Header_index :: "header \<Rightarrow> string \<Rightarrow> string list" where
  "Header_index [] k = []"
| "Header_index ((k', vs) # h) k = (if k' = k then vs else Header_index h k)"

subsection \<open>Request mutation (\<open>morfUri\<close>, lines 294-302; \<open>morfHeader\<close>, lines 308-338)\<close>

text \<open>\<open>b[i] = c\<close> on a byte slice: out of range is a panic.\<close>

definition set_byte :: "string \<Rightarrow> nat \<Rightarrow> char \<Rightarrow> panic + string" where
  "set_byte b i c = (if i < length b then Inr (b[i := c]) else Inl IndexOutOfRange)"

text \<open>\<open>byte(n)\<close> keeps the low 8 bits of \<open>n\<close>.\<close>

definition byte :: "nat \<Rightarrow> char" where
  "byte n = char_of n"


text \<open>
  \<open>morfHeader\<close>: the inner loop over the values of the chosen header. \<open>iv\<close> counts the
  values, \<open>iVals\<close> is the value to change; the header is rebuilt with \<open>Set\<close> for the
  first value and \<open>Add\<close> for the others. The keys of a parsed request are in canonical
  form, which \<open>Set\<close> and \<open>Add\<close> keep.
\<close>

fun morfHeader_vals ::
  "header \<Rightarrow> string \<Rightarrow> string list \<Rightarrow> nat \<Rightarrow> nat \<Rightarrow> nat \<Rightarrow> nat \<Rightarrow> panic + header" where
  "morfHeader_vals h key [] iv iVals draw3 draw4 = Inr h"
| "morfHeader_vals h key (val # vals) iv iVals draw3 draw4 =
    (case (if iv = iVals then
             (case randInt (length val) draw3 of
                Inl e \<Rightarrow> Inl e
              | Inr iVal \<Rightarrow>
                  (case randInt 256 draw4 of
                     Inl e \<Rightarrow> Inl e
                   | Inr v \<Rightarrow> set_byte val iVal (byte v)))
           else Inr val) of
       Inl e \<Rightarrow> Inl e
     | Inr val' \<Rightarrow>
         morfHeader_vals (if iv = 0 then Header_Set h key val' else Header_Add h key val')
           key vals (Suc iv) iVals draw3 draw4)"

text \<open>The outer loop counts \<open>iHdr\<close> down over the headers and returns after the chosen one.\<close>

fun morfHeader_loop ::
  "header \<Rightarrow> header \<Rightarrow> nat \<Rightarrow> nat \<Rightarrow> nat \<Rightarrow> nat \<Rightarrow> panic + header" where
  "morfHeader_loop h [] iHdr draw2 draw3 draw4 = Inr h"
| "morfHeader_loop h ((key, vals) # rest) iHdr draw2 draw3 draw4 =
    (if iHdr = 0 then
       (case randInt (length vals) draw2 of
          Inl e \<Rightarrow> Inl e
        | Inr iVals \<Rightarrow> morfHeader_vals h key vals 0 iVals draw3 draw4)
     else morfHeader_loop h rest (iHdr - 1) draw2 draw3 draw4)"

definition morfHeader :: "request \<Rightarrow> nat \<Rightarrow> nat \<Rightarrow> nat \<Rightarrow> nat \<Rightarrow> panic + request" where
  "morfHeader r draw1 draw2 draw3 draw4 =
    (case randInt (length (Header r)) draw1 of
       Inl e \<Rightarrow> Inl e
     | Inr iHdr \<Rightarrow>
         (case morfHeader_loop (Header r) (Header r) iHdr draw2 draw3 draw4 of
            Inl e \<Rightarrow> Inl e
          | Inr h \<Rightarrow> Inr (r\<lparr>Header := h\<rparr>)))"

subsection \<open>Time (\<open>UnixMs\<close>, lines 26-28)\<close>

text \<open>
  A \<open>time.Time\<close> is kept as the \<open>int64\<close> its \<open>UnixNano()\<close> returns. Go's \<open>/\<close> on
  integers truncates towards zero, HOL's \<open>div\<close> rounds down; the times compared below are
  far from the ends of \<open>int64\<close>, so they are unbounded integers here.
\<close>

definition UnixMs :: "int \<Rightarrow> int" where
  "UnixMs t = (if t < 0 then - ((- t) div 1000000) else t div 1000000)"

subsection \<open>The session-identity entry and the expiration queue (lines 54-102)\<close>

record StagKeys =
  sessionKey :: string
  sessionTtl :: string
  csrfToken :: string
  Expiration :: int

text \<open>\<open>new(StagKeys)\<close>: the zero value.\<close>

definition new_StagKeys :: StagKeys where
  "new_StagKeys = \<lparr>sessionKey = [], sessionTtl = [], csrfToken = [], Expiration = 0\<rparr>"

record tokenExpiration =
  time :: int
  token :: string
  index :: int

text \<open>
  \<open>tokenExpirationQueue\<close> is a slice of pointers. Its elements are created one per
  \<open>heap.Push\<close> and are never nil, so no two slots share an element and the nil tests of
  \<open>Less\<close> hold; the queue is the list of the elements themselves. The functions below
  read \<open>teq ! i\<close> only where the Go code has an index in range.
\<close>

type_synonym tokenExpirationQueue = "tokenExpiration list"

definition Less :: "tokenExpirationQueue \<Rightarrow> nat \<Rightarrow> nat \<Rightarrow> bool" where
  "Less teq i j = (time (teq ! i) < time (teq ! j))"

definition Swap :: "tokenExpirationQueue \<Rightarrow> nat \<Rightarrow> nat \<Rightarrow> tokenExpirationQueue" where
  "Swap teq i j =
    (let t1 = teq[i := teq ! j, j := teq ! i];
         t2 = t1[i := (t1 ! i)\<lparr>index := int i\<rparr>]
     in t2[j := (t2 ! j)\<lparr>index := int j\<rparr>])"

definition Push :: "tokenExpirationQueue \<Rightarrow> tokenExpiration \<Rightarrow> tokenExpirationQueue" where
  "Push teq item = teq @ [item\<lparr>index := int (length teq)\<rparr>]"

text \<open>
  \<open>container/heap\<close> of the Go standard library, which the queue is handed to:
  \<open>up\<close> and \<open>down\<close> sift an element, \<open>heap.Push\<close> appends and sifts up,
  \<open>heap.Fix\<close> sifts down and, when nothing moved, up.
\<close>

function heap_up :: "tokenExpirationQueue \<Rightarrow> nat \<Rightarrow> tokenExpirationQueue" where
  "heap_up h j =
    (let i = (j - 1) div 2 in
     if i = j \<or> \<not> Less h j i then h else heap_up (Swap h i j) i)"
  by pat_completeness auto
termination
  by (relation "measure snd") auto

declare heap_up.simps [simp del]

function heap_down_loop :: "tokenExpirationQueue \<Rightarrow> nat \<Rightarrow> nat \<Rightarrow> tokenExpirationQueue \<times> nat" where
  "heap_down_loop h i n =
    (let j1 = 2 * i + 1 in
     if j1 \<ge> n then (h, i)
     else
       (let j = (if j1 + 1 < n \<and> Less h (j1 + 1) j1 then j1 + 1 else j1) in
        if \<not> Less h j i then (h, i) else heap_down_loop (Swap h i j) j n))"
  by pat_completeness auto
termination
  by (relation "measure (\<lambda>(h, i, n). n - i)") (auto split: if_splits)

declare heap_down_loop.simps [simp del]

definition heap_down :: "tokenExpirationQueue \<Rightarrow> nat \<Rightarrow> nat \<Rightarrow> tokenExpirationQueue \<times> bool" where
  "heap_down h i0 n = (let (h', i) = heap_down_loop h i0 n in (h', i > i0))"

definition heap_Push :: "tokenExpirationQueue \<Rightarrow> tokenExpiration \<Rightarrow> tokenExpirationQueue" where
  "heap_Push h x = (let h' = Push h x in heap_up h' (length h' - 1))"

text \<open>
  \<open>heap.Fix(h, i)\<close> takes the index from the element's \<open>index\<close> field. With an index
  outside the queue \<open>down\<close> does nothing and \<open>up\<close> reads \<open>h[i]\<close>, a panic, except that
  the parent of \<open>-1\<close> is \<open>-1\<close> and the parent of \<open>0\<close> is \<open>0\<close>, where \<open>up\<close> stops first.
\<close>

definition heap_Fix :: "tokenExpirationQueue \<Rightarrow> int \<Rightarrow> panic + tokenExpirationQueue" where
  "heap_Fix h i =
    (if 0 \<le> i \<and> i < int (length h) then
       (let (h', moved) = heap_down h (nat i) (length h) in
        if moved then Inr h' else Inr (heap_up h' (nat i)))
     else if i = - 1 \<or> i = 0 then Inr h
     else Inl IndexOutOfRange)"

text \<open>
  \<open>update\<close> (lines 98-102). The item is a pointer to an element of the queue; the model
  names it by its slot \<open>p\<close> (the only caller passes \<open>tokensExpirationList[0]\<close>).
\<close>

definition update :: "tokenExpirationQueue \<Rightarrow> nat \<Rightarrow> string \<Rightarrow> int \<Rightarrow> panic + tokenExpirationQueue" where
  "update teq p tok t =
    (if p < length teq then
       (let teq' = teq[p := (teq ! p)\<lparr>token := tok, time := t\<rparr>] in heap_Fix teq' (index (teq' ! p)))
     else Inl IndexOutOfRange)"

subsection \<open>The request manager (lines 104-140)\<close>

text \<open>The liveness flag: \<open>ping.Manger\<close> with its method \<open>Set\<close>.\<close>

record Manger =
  ServiceName :: string
  StatusOk :: bool


record TestOptions =
  MorfUri :: bool
  MorfHeader :: bool
  MorfUriBase :: string

text \<open>
  \<open>PendingRequest\<close>; the fields carry the prefix \<open>pr_\<close> because \<open>sessionKey\<close> is a
  field of \<open>StagKeys\<close> too.
\<close>

record PendingRequest =
  pr_req :: request
  pr_body :: "string option"
  pr_requestKey :: string
  pr_sessionKey :: string
  pr_keyExpires :: int

text \<open>
  A buffered channel of pending requests: the queued elements, oldest first, and the
  capacity given to \<open>make\<close>. Run by one goroutine alone, a receive from an empty channel
  and a send to a full one do not return: they wait for another goroutine.
\<close>

record chan =
  chan_buf :: "PendingRequest list"
  chan_cap :: nat




text \<open>
  \<open>RequestManager\<close> without its two transports (\<open>DestProduction\<close>, \<open>DestStaging\<close>),
  which are the network. \<open>cacheId\<close> is an \<open>int64\<close>.
\<close>

record RequestManager =
  UrlProduction :: url_ptr
  UrlStaging :: url_ptr
  pingManager :: Manger
  TestOptions :: TestOptions
  cacheId :: "64 word"
  forwardPrefix :: string
  CacheData :: "string \<rightharpoonup> StagKeys"
  tokensExpirationList :: tokenExpirationQueue
  PendingRequests :: chan

text \<open>What \<open>log.Printf\<close> is given: the format of the line and its argument.\<close>

datatype log_entry =
    PendingOverflow string   \<comment> \<open>"error: pending requests overflow! removing: %+v"\<close>
  | StagKeyExpiration int    \<comment> \<open>"stagKeyExpiration: %+v"\<close>
  | SendingError             \<comment> \<open>"error sending message to staging: %+v"\<close>
  | NewRequestError          \<comment> \<open>"error creating new request: "\<close>

subsection \<open>Request ids (\<open>Init\<close>, lines 145-157; \<open>createReqId\<close>, lines 160-163)\<close>

text \<open>\<open>strconv.FormatUint(x, 16)\<close> and \<open>strconv.FormatInt(x, 16)\<close>.\<close>

definition hexDigit :: "nat \<Rightarrow> char" where
  "hexDigit d = ''0123456789abcdef'' ! d"

function hexDigits :: "nat \<Rightarrow> string" where
  "hexDigits n = (if n < 16 then [hexDigit n] else hexDigits (n div 16) @ [hexDigit (n mod 16)])"
  by pat_completeness auto
termination
  by (relation "measure id") auto

declare hexDigits.simps [simp del]

definition FormatUint16 :: "64 word \<Rightarrow> string" where
  "FormatUint16 x = hexDigits (unat x)"

definition FormatInt16 :: "64 word \<Rightarrow> string" where
  "FormatInt16 x = (if sint x < 0 then CHR ''-'' # hexDigits (nat (- sint x)) else hexDigits (nat (sint x)))"

text \<open>
  \<open>Init\<close>: \<open>i64rand\<close> is the \<open>Uint64()\<close> of the random integer drawn below \<open>MaxInt64\<close> and
  \<open>now\<close> the \<open>uint64\<close> of \<open>time.Now().UnixNano()\<close>; the sum is a \<open>uint64\<close> sum.
  \<open>heap.Init\<close> of the empty queue leaves it empty. The registration of the HTTP handlers
  is outside the manager's data.
\<close>

definition Init :: "RequestManager \<Rightarrow> 64 word \<Rightarrow> 64 word \<Rightarrow> RequestManager" where
  "Init reqMgr i64rand now =
     reqMgr\<lparr>cacheId := 0,
            forwardPrefix := FormatUint16 (i64rand + now) @ ''-'',
            tokensExpirationList := []\<rparr>"

text \<open>\<open>createReqId\<close>: \<open>atomic.AddInt64\<close> adds with wrap-around and returns the new value.\<close>

definition createReqId :: "RequestManager \<Rightarrow> RequestManager \<times> string" where
  "createReqId reqMgr =
    (let id = cacheId reqMgr + 1 in
     (reqMgr\<lparr>cacheId := id\<rparr>, forwardPrefix reqMgr @ FormatInt16 id))"

subsection \<open>The session-identity cache update (\<open>cacheResponse\<close>, lines 166-252)\<close>

text \<open>
  \<open>http.Response\<close>: the status code and what \<open>resp.Cookies()\<close> returns, the parsed
  \<open>Set-Cookie\<close> lines. The caller holds a response only when \<open>Do\<close> gave no error, so
  the pointer is not nil.
\<close>

record response =
  StatusCode :: int
  RespCookies :: "cookie list"

text \<open>
  The loop over the cookies of the staging response (lines 186-196), on the entry and the
  two locals \<open>stagKeyExpiration\<close> and \<open>stagKeyMaxAge\<close>.
\<close>

fun cacheResponse_cookies :: "cookie list \<Rightarrow> StagKeys \<times> int \<times> int \<Rightarrow> StagKeys \<times> int \<times> int" where
  "cacheResponse_cookies [] acc = acc"
| "cacheResponse_cookies (cc # ccs) (stagKey, stagKeyExpiration, stagKeyMaxAge) =
    cacheResponse_cookies ccs
      (if EqualFold (Name cc) ''csrfToken'' then
         (stagKey\<lparr>csrfToken := Value cc\<rparr>, stagKeyExpiration, stagKeyMaxAge)
       else if EqualFold (Name cc) ''sessionKey'' then
         (stagKey\<lparr>sessionKey := Value cc\<rparr>, UnixMs (Expires cc), MaxAge cc)
       else if EqualFold (Name cc) ''sessionTtl'' then
         (stagKey\<lparr>sessionTtl := Value cc\<rparr>, stagKeyExpiration, stagKeyMaxAge)
       else (stagKey, stagKeyExpiration, stagKeyMaxAge))"

text \<open>
  The block for a new key (lines 215-251): the entry goes into the cache, then the root of
  the expiration queue decides between reusing its slot and pushing \<open>listItem\<close>.
\<close>

definition cacheResponse_newKey ::
  "RequestManager \<Rightarrow> string \<Rightarrow> StagKeys \<Rightarrow> int \<Rightarrow> int \<Rightarrow> panic + RequestManager" where
  "cacheResponse_newKey reqMgr prodSessionKey stagKey prodKeyExpiration tNow =
    (let cache = (CacheData reqMgr)(prodSessionKey \<mapsto> stagKey);
         teq = tokensExpirationList reqMgr;
         listItem = \<lparr>time = prodKeyExpiration, token = prodSessionKey, index = 0\<rparr>;
         inspected =
           (if length teq > 0 then
              (let item = teq ! 0 in
               if token item = prodSessionKey then Inr (True, teq)
               else if time item \<le> tNow then
                 (case cache (token item) of
                    None \<Rightarrow> Inr (True, teq)
                  | Some firstKey \<Rightarrow>
                      if Expiration firstKey \<le> tNow then Inr (True, teq)
                      else
                        (case update teq 0 (token item) (Expiration firstKey) of
                           Inl e \<Rightarrow> Inl e
                         | Inr teq' \<Rightarrow> Inr (False, teq')))
               else Inr (False, teq))
            else Inr (False, teq))
     in case inspected of
          Inl e \<Rightarrow> Inl e
        | Inr (reUseItem, teq1) \<Rightarrow>
            if reUseItem then
              (case update teq1 0 prodSessionKey prodKeyExpiration of
                 Inl e \<Rightarrow> Inl e
               | Inr teq2 \<Rightarrow> Inr (reqMgr\<lparr>CacheData := cache, tokensExpirationList := teq2\<rparr>))
            else
              Inr (reqMgr\<lparr>CacheData := cache, tokensExpirationList := heap_Push teq1 listItem\<rparr>))"

text \<open>
  \<open>cacheResponse\<close>. \<open>now1\<close> and \<open>now2\<close> are the two readings of \<open>time.Now()\<close> (lines 203
  and 207). \<open>stagKey\<close> is a pointer: for a key already cached the assignments to its
  fields change the cached entry at once, which the model writes back as \<open>cache1\<close>; a new
  entry is in the cache only after line 217.
\<close>

definition cacheResponse ::
  "RequestManager \<Rightarrow> string \<Rightarrow> response \<Rightarrow> int \<Rightarrow> int \<Rightarrow> int \<Rightarrow>
     panic + (RequestManager \<times> log_entry list)" where
  "cacheResponse reqMgr prodSessionKey resp prodKeyExpiration now1 now2 =
    (if prodSessionKey = [] \<or> StatusCode resp \<ge> 400 then Inr (reqMgr, [])
     else
       (let (newKey, stagKey0) =
              (case CacheData reqMgr prodSessionKey of
                 None \<Rightarrow> (True, new_StagKeys)
               | Some k \<Rightarrow> (False, k));
            (stagKey1, stagKeyExpiration, stagKeyMaxAge) =
              cacheResponse_cookies (RespCookies resp) (stagKey0, 0, 0);
            stagKey =
              (if prodKeyExpiration \<noteq> 0 \<and> Expiration stagKey1 \<noteq> prodKeyExpiration then
                 stagKey1\<lparr>Expiration := prodKeyExpiration\<rparr>
               else if Expiration stagKey1 = 0 then
                 stagKey1\<lparr>Expiration := UnixMs now1 + 60 * 20000\<rparr>
               else stagKey1);
            cache1 = (if newKey then CacheData reqMgr else (CacheData reqMgr)(prodSessionKey \<mapsto> stagKey));
            tNow = UnixMs now2
        in
        if sessionKey stagKey = [] \<and> \<not> (stagKeyExpiration > tNow \<or> stagKeyMaxAge > 0) then
          Inr (reqMgr\<lparr>CacheData := cache1(prodSessionKey := None)\<rparr>, [StagKeyExpiration stagKeyExpiration])
        else if newKey then
          (case cacheResponse_newKey reqMgr prodSessionKey stagKey prodKeyExpiration tNow of
             Inl e \<Rightarrow> Inl e
           | Inr reqMgr' \<Rightarrow> Inr (reqMgr', []))
        else Inr (reqMgr\<lparr>CacheData := cache1\<rparr>, [])))"

subsection \<open>Interception (\<open>forwardHandler\<close>, lines 362-424)\<close>

text \<open>\<open>strings.Split\<close> with a separator of one byte.\<close>

fun Split :: "string \<Rightarrow> char \<Rightarrow> string list" where
  "Split [] sep = [[]]"
| "Split (c # cs) sep =
    (if c = sep then [] # Split cs sep
     else (case Split cs sep of
             [] \<Rightarrow> [[c]]
           | w # ws \<Rightarrow> (c # w) # ws))"

text \<open>\<open>strings.TrimSpace\<close> on ASCII text: space, tab, line feed, vertical tab, form feed, return.\<close>

definition isSpace :: "char \<Rightarrow> bool" where
  "isSpace c = (c \<in> set [CHR '' '', CHR 0x09, CHR 0x0A, CHR 0x0B, CHR 0x0C, CHR 0x0D])"

definition TrimSpace :: "string \<Rightarrow> string" where
  "TrimSpace s = rev (dropWhile isSpace (rev (dropWhile isSpace s)))"

text \<open>
  \<open>getRespSessionKey\<close> (lines 389-409). \<open>parseTime\<close> is \<open>time.Parse(time.RFC1123, _)\<close>:
  the \<open>UnixNano()\<close> of the time read, or \<open>None\<close> for an error. The inner function is the
  loop over the attributes after the first one.
\<close>

fun getRespSessionKey_tokens :: "(string \<Rightarrow> int option) \<Rightarrow> string list \<Rightarrow> int option" where
  "getRespSessionKey_tokens parseTime [] = None"
| "getRespSessionKey_tokens parseTime (t # ts) =
    (let tok = TrimSpace t in
     if length tok \<ge> 8 \<and> EqualFold (take 8 tok) ''Expires='' then
       (case parseTime (drop 8 tok) of
          Some timeExpires \<Rightarrow> Some (UnixMs timeExpires)
        | None \<Rightarrow> getRespSessionKey_tokens parseTime ts)
     else getRespSessionKey_tokens parseTime ts)"

fun getRespSessionKey :: "(string \<Rightarrow> int option) \<Rightarrow> string list \<Rightarrow> string \<times> int" where
  "getRespSessionKey parseTime [] = ([], 0)"
| "getRespSessionKey parseTime (c # cs) =
    (if length c \<ge> 11 \<and> EqualFold (take 11 c) ''sessionKey='' then
       (case Split c CHR '';'' of
          [] \<Rightarrow> ([], 0)
        | t0 # ts \<Rightarrow>
            (let prodSessionKey = drop 11 t0 in
             case getRespSessionKey_tokens parseTime ts of
               Some prodKeyExpires \<Rightarrow> (prodSessionKey, prodKeyExpires)
             | None \<Rightarrow> (prodSessionKey, 0)))
     else getRespSessionKey parseTime cs)"

text \<open>\<open>getSessionKey\<close> (lines 414-424).\<close>

fun getSessionKey :: "cookie list \<Rightarrow> string \<times> int" where
  "getSessionKey [] = ([], 0)"
| "getSessionKey (c # cs) =
    (if EqualFold (Name c) ''sessionKey'' then (Value c, UnixMs (Expires c))
     else getSessionKey cs)"

text \<open>
  \<open>forwardHandler\<close>: the result is the record handed to \<open>go reqMgr.sendStaging\<close>, or
  \<open>None\<close> when no staging server is configured.
\<close>

definition forwardHandler ::
  "(string \<Rightarrow> int option) \<Rightarrow> url_store \<Rightarrow> RequestManager \<Rightarrow> request \<Rightarrow> header \<Rightarrow> string option \<Rightarrow>
     PendingRequest option" where
  "forwardHandler parseTime urls reqMgr r respHdr stagBody =
    (if Scheme (urls (UrlStaging reqMgr)) = [] \<or> Host (urls (UrlStaging reqMgr)) = [] then None
     else
       (let cookies = Header_index respHdr ''Set-Cookie'';
            (updateSessionKey, updateKeyExpires) = getRespSessionKey parseTime cookies;
            (prodSessionKey, _) = getSessionKey (Cookies r)
        in Some \<lparr>pr_req = r, pr_body = stagBody, pr_requestKey = prodSessionKey,
                 pr_sessionKey = updateSessionKey, pr_keyExpires = updateKeyExpires\<rparr>))"

subsection \<open>The pending queue (\<open>sendStaging\<close>, lines 430-450)\<close>


subsection \<open>The forwarder (\<open>sendRequest\<close>, lines 470-506; \<open>buildForwardRequest\<close>, lines 511-566)\<close>

text \<open>
  \<open>sendRequest\<close>: \<open>doResult\<close> is what \<open>DestStaging.Do(reqSend)\<close> returned, \<open>None\<close> for an
  error. The lines after the cache update print the first 70 bytes of the response body and
  of the path; they do not touch the manager and are not part of the model.
\<close>

definition sendRequest ::
  "RequestManager \<Rightarrow> PendingRequest \<Rightarrow> response option \<Rightarrow> int \<Rightarrow> int \<Rightarrow>
     panic + (RequestManager \<times> log_entry list)" where
  "sendRequest reqMgr sendReq doResult now1 now2 =
    (case doResult of
       None \<Rightarrow> Inr (reqMgr, [SendingError])
     | Some resp \<Rightarrow> cacheResponse reqMgr (pr_sessionKey sendReq) resp (pr_keyExpires sendReq) now1 now2)"

definition httpNameHeader :: string where "httpNameHeader = ''Http-Splitter''"
definition httpForwardedHeader :: string where "httpForwardedHeader = ''X-Forwarded-By''"
definition httpDuplicateHeader :: string where "httpDuplicateHeader = ''X-Duplicate-By''"

text \<open>The copy of the values of one header (lines 527-541) and of all headers (lines 525-543).\<close>

fun copyValues :: "StagKeys option \<Rightarrow> string \<Rightarrow> string list \<Rightarrow> header \<Rightarrow> header" where
  "copyValues StagKeys key [] h = h"
| "copyValues StagKeys key (v # vals) h =
    (let val = (case StagKeys of
                  None \<Rightarrow> v
                | Some sk \<Rightarrow> if EqualFold key ''X-Csrf-Token'' \<and> csrfToken sk \<noteq> [] then csrfToken sk else v)
     in copyValues StagKeys key vals (if \<not> EqualFold key ''Cookie'' then Header_Add h key val else h))"

fun copyHeaders :: "StagKeys option \<Rightarrow> header \<Rightarrow> header \<Rightarrow> header" where
  "copyHeaders StagKeys [] h = h"
| "copyHeaders StagKeys ((key, vals) # rest) h =
    copyHeaders StagKeys rest
      (if \<not> EqualFold key httpForwardedHeader then copyValues StagKeys key vals h else h)"

text \<open>The loop over the inbound cookies (lines 547-559); \<open>added\<close> collects the \<open>AddCookie\<close> calls.\<close>

fun fixCookies :: "StagKeys \<Rightarrow> cookie list \<Rightarrow> cookie list \<Rightarrow> cookie list" where
  "fixCookies sk [] added = added"
| "fixCookies sk (cc # ccs) added =
    (let cc' = (if EqualFold (Name cc) ''csrfToken'' then cc\<lparr>Value := csrfToken sk\<rparr>
                else if EqualFold (Name cc) ''sessionKey'' then cc\<lparr>Value := sessionKey sk\<rparr>
                else if EqualFold (Name cc) ''sessionTtl'' then cc\<lparr>Value := sessionTtl sk\<rparr>
                else cc)
     in fixCookies sk ccs (if Value cc' \<noteq> [] then added @ [cc'] else added))"

text \<open>
  \<open>buildForwardRequest\<close>. \<open>accepts\<close> says whether \<open>http.NewRequest\<close> takes the method and
  the URL text without an error. The request it returns has an empty header; its URL is
  replaced in the next line by the manager's pointer, and the assignment to
  \<open>stagReq.URL.Path\<close> is a write to the store at that address.
\<close>

definition buildForwardRequest ::
  "(string \<Rightarrow> string \<Rightarrow> bool) \<Rightarrow> url_store \<Rightarrow> RequestManager \<Rightarrow> request \<Rightarrow> string \<Rightarrow> string option \<Rightarrow>
     url_store \<times> request option \<times> log_entry list" where
  "buildForwardRequest accepts urls reqMgr r prodSessionKey stagBody =
    (if \<not> accepts (Method r) (Path (urls (URL r))) then (urls, None, [NewRequestError])
     else
       (let stagURL = UrlStaging reqMgr;
            urls' = urls(stagURL := (urls stagURL)\<lparr>Path := Path (urls (URL r))\<rparr>);
            StagKeys = CacheData reqMgr prodSessionKey;
            h = copyHeaders StagKeys (Header r) [];
            cs = (case StagKeys of
                    None \<Rightarrow> []
                  | Some sk \<Rightarrow> fixCookies sk (Cookies r) [])
        in (urls',
            Some \<lparr>Method = (if Method r = [] then ''GET'' else Method r),
                  URL = stagURL,
                  ReqHost = Host (urls' (UrlStaging reqMgr)),
                  Header = Header_Add h httpDuplicateHeader httpNameHeader,
                  Cookies = cs,
                  Body = stagBody\<rparr>,
            [])))"

subsection \<open>Notions used in the statements\<close>

text \<open>
  The invariant the \<open>heap.Interface\<close> methods keep: every element records its own slot.
\<close>

definition indexed :: "tokenExpirationQueue \<Rightarrow> bool" where
  "indexed teq = (map index teq = map int [0..<length teq])"

text \<open>Sifting the root down, which is what \<open>heap.Fix\<close> does at index 0.\<close>

definition siftRoot :: "tokenExpirationQueue \<Rightarrow> tokenExpirationQueue" where
  "siftRoot h = fst (heap_down h 0 (length h))"

text \<open>
  The header value \<open>morfHeader\<close> selects with its first two draws, \<open>None\<close> when there is
  no header or the selected header has no value.
\<close>

definition morfHeader_selected :: "request \<Rightarrow> nat \<Rightarrow> nat \<Rightarrow> string option" where
  "morfHeader_selected r draw1 draw2 =
    (if Header r = [] then None
     else
       (let vals = snd (Header r ! (draw1 mod length (Header r))) in
        if vals = [] then None else Some (vals ! (draw2 mod length vals))))"

text \<open>
  The rebuilding of the cookies in the words of the specification (section 4.6, step 3):
  an identity cookie takes the entry's value when the entry for the inbound key has a
  non-empty one, a cookie left with an empty value is dropped, and all the others are
  added, whether or not there is an entry.
\<close>

definition spec_cookie :: "StagKeys option \<Rightarrow> cookie \<Rightarrow> cookie" where
  "spec_cookie entry cc =
    (case entry of
       None \<Rightarrow> cc
     | Some sk \<Rightarrow>
         if EqualFold (Name cc) ''csrfToken'' \<and> csrfToken sk \<noteq> [] then cc\<lparr>Value := csrfToken sk\<rparr>
         else if EqualFold (Name cc) ''sessionKey'' \<and> sessionKey sk \<noteq> [] then cc\<lparr>Value := sessionKey sk\<rparr>
         else if EqualFold (Name cc) ''sessionTtl'' \<and> sessionTtl sk \<noteq> [] then cc\<lparr>Value := sessionTtl sk\<rparr>
         else cc)"

definition spec_rebuildCookies :: "StagKeys option \<Rightarrow> cookie list \<Rightarrow> cookie list" where
  "spec_rebuildCookies entry ccs = filter (\<lambda>cc. Value cc \<noteq> []) (map (spec_cookie entry) ccs)"

text \<open>
  The request-id prefix in the words of the specification (section 4.7): the random
  integer combined with the time by exclusive or.
\<close>

definition spec_forwardPrefix :: "64 word \<Rightarrow> 64 word \<Rightarrow> string" where
  "spec_forwardPrefix i64rand now = FormatUint16 (xor i64rand now) @ ''-''"

subsection \<open>A running instance\<close>

text \<open>
  The state the program has after start-up: address 0 holds the production URL, address 1
  the staging URL and every other address the URL of an inbound request; the cache holds
  the entry \<open>main\<close> stores under the empty key; the channel has the capacity
  \<open>NumPendingRequests\<close>. \<open>zeroTime\<close> is the \<open>UnixNano()\<close> of the zero \<open>time.Time\<close>, the
  \<open>Expires\<close> of a cookie that names none.
\<close>

definition zeroTime :: int where
  "zeroTime = - 6795364578871345152"

definition example_urls :: url_store where
  "example_urls =
    (\<lambda>a. if a = 0 then \<lparr>Scheme = ''http'', Host = ''prod.example'', Path = ''/'', RawQuery = []\<rparr>
          else if a = 1 then \<lparr>Scheme = ''http'', Host = ''stag.example'', Path = ''/'', RawQuery = ''v=1''\<rparr>
          else \<lparr>Scheme = [], Host = [], Path = ''/api/login'', RawQuery = ''user=7''\<rparr>)"

definition example_manager :: RequestManager where
  "example_manager =
    \<lparr>UrlProduction = 0, UrlStaging = 1,
     pingManager = \<lparr>ServiceName = [], StatusOk = False\<rparr>,
     TestOptions = \<lparr>MorfUri = False, MorfHeader = False, MorfUriBase = ''/api/''\<rparr>,
     cacheId = 0, forwardPrefix = ''0-'',
     CacheData = [[] \<mapsto> new_StagKeys],
     tokensExpirationList = [],
     PendingRequests = \<lparr>chan_buf = [], chan_cap = 10000\<rparr>\<rparr>"

definition example_request :: request where
  "example_request =
    \<lparr>Method = ''GET'', URL = 2, ReqHost = ''prod.example'',
     Header = [(''Accept'', [''text/html'', []]), (''Cookie'', [''sessionKey=PROD1; lang=en''])],
     Cookies = [\<lparr>Name = ''sessionKey'', Value = ''PROD1'', Expires = zeroTime, MaxAge = 0\<rparr>,
                \<lparr>Name = ''lang'', Value = ''en'', Expires = zeroTime, MaxAge = 0\<rparr>],
     Body = None\<rparr>"

text \<open>The \<open>Set-Cookie\<close> line of a production response and a staging response that log in.\<close>

definition example_respHdr :: header where
  "example_respHdr =
    [(''Set-Cookie'', [''lang=en'', ''sessionKey=PROD2; Path=/; expires=Wed, 01 Jan 2020 00:00:00 UTC''])]"

definition example_response :: response where
  "example_response =
    \<lparr>StatusCode = 200,
     RespCookies = [\<lparr>Name = ''sessionKey'', Value = ''STG2'', Expires = zeroTime, MaxAge = 3600\<rparr>]\<rparr>"

definition example_pending :: PendingRequest where
  "example_pending =
    \<lparr>pr_req = example_request, pr_body = None, pr_requestKey = ''PROD1'',
     pr_sessionKey = ''PROD2'', pr_keyExpires = 1577836800000\<rparr>"

text \<open>
  The two library functions the model takes as parameters, for the instance: a
  \<open>time.Parse\<close> that reads one date and a \<open>http.NewRequest\<close> that refuses a URL text with
  the control character DEL.
\<close>

definition example_parseTime :: "string \<Rightarrow> int option" where
  "example_parseTime s =
    (if s = ''Wed, 01 Jan 2020 00:00:00 UTC'' then Some 1577836800000000000 else None)"

definition example_accepts :: "string \<Rightarrow> string \<Rightarrow> bool" where
  "example_accepts method urlText = (CHR 0x7F \<notin> set urlText)"

text \<open>A staging response that logs out, and a queue with one element whose token is not cached.\<close>

definition example_logout :: response where
  "example_logout =
    \<lparr>StatusCode = 200,
     RespCookies = [\<lparr>Name = ''sessionKey'', Value = [], Expires = 1000000, MaxAge = - 1\<rparr>]\<rparr>"


text \<open>The manager after the production key \<open>PROD2\<close> has been learned.\<close>

definition example_known :: RequestManager where
  "example_known =
    example_manager
      \<lparr>CacheData := [[] \<mapsto> new_StagKeys,
                      ''PROD2'' \<mapsto> \<lparr>sessionKey = ''STG2'', sessionTtl = [], csrfToken = ''CT2'',
                                    Expiration = 77\<rparr>],
       tokensExpirationList := [\<lparr>time = 77, token = ''PROD2'', index = 0\<rparr>]\<rparr>"

section \<open>Properties\<close>

subsection \<open>Request mutation\<close>



text \<open>Helper facts on the two loops of \<open>morfHeader\<close>.\<close>

lemma morfHeader_vals_past:
  "iVals < iv \<Longrightarrow> \<exists>h'. morfHeader_vals h key vals iv iVals d3 d4 = Inr h'"
  by (induction vals arbitrary: h iv) auto

lemma morfHeader_vals_result:
  "iv \<le> iVals \<Longrightarrow> iVals < iv + length vals \<Longrightarrow>
   (if vals ! (iVals - iv) = [] then morfHeader_vals h key vals iv iVals d3 d4 = Inl RandIntArgument
    else (\<exists>h'. morfHeader_vals h key vals iv iVals d3 d4 = Inr h'))"
proof (induction vals arbitrary: h iv)
  case Nil
  then show ?case by simp
next
  case (Cons val vals)
  show ?case
  proof (cases "iv = iVals")
    case True
    show ?thesis
    proof (cases "val = []")
      case True
      with \<open>iv = iVals\<close> show ?thesis by (simp add: randInt_def)
    next
      case False
      have "d3 mod length val < length val" using False by simp
      with False \<open>iv = iVals\<close> show ?thesis
        using morfHeader_vals_past [of iVals "Suc iVals"]
        by (simp add: randInt_def set_byte_def)
    qed
  next
    case False
    with Cons.prems have le: "Suc iv \<le> iVals" and lt: "iVals < Suc iv + length vals" by simp_all
    have nth: "(val # vals) ! (iVals - iv) = vals ! (iVals - Suc iv)"
      using le by (simp add: nth_Cons')
    show ?thesis using False Cons.IH [OF le lt] unfolding nth by simp
  qed
qed

lemma morfHeader_loop_result:
  "iHdr < length rest \<Longrightarrow>
   morfHeader_loop h rest iHdr d2 d3 d4 =
     (case randInt (length (snd (rest ! iHdr))) d2 of
        Inl e \<Rightarrow> Inl e
      | Inr iVals \<Rightarrow> morfHeader_vals h (fst (rest ! iHdr)) (snd (rest ! iHdr)) 0 iVals d3 d4)"
proof (induction rest arbitrary: iHdr)
  case Nil
  then show ?case by simp
next
  case (Cons kv rest)
  obtain key vals where kv: "kv = (key, vals)" by (cases kv)
  show ?case
  proof (cases iHdr)
    case 0
    show ?thesis unfolding 0 kv by (simp split: sum.splits)
  next
    case (Suc n)
    with Cons.prems have "n < length rest" by simp
    from Cons.IH [OF this] show ?thesis unfolding Suc kv by (simp split: sum.splits)
  qed
qed

text \<open>
  C9. \<open>morfHeader\<close> is not total. On a request with no header the first draw has the
  bound 0 and panics; when the value selected by the first two draws is the empty string
  the third draw has the bound 0 and panics. The call returns exactly when the request has
  a header and the selected value exists and is not empty.
\<close>

theorem morfHeader_not_total:
  "(Header r = [] \<longrightarrow> morfHeader r draw1 draw2 draw3 draw4 = Inl RandIntArgument) \<and>
   (morfHeader_selected r draw1 draw2 = Some [] \<longrightarrow>
      morfHeader r draw1 draw2 draw3 draw4 = Inl RandIntArgument) \<and>
   ((\<exists>r'. morfHeader r draw1 draw2 draw3 draw4 = Inr r') \<longleftrightarrow>
      (Header r \<noteq> [] \<and> (\<exists>val. morfHeader_selected r draw1 draw2 = Some val \<and> val \<noteq> [])))"
proof (cases "Header r = []")
  case True
  then show ?thesis by (simp add: morfHeader_def randInt_def morfHeader_selected_def)
next
  case False
  define iHdr where "iHdr = draw1 mod length (Header r)"
  define vals where "vals = snd (Header r ! iHdr)"
  have iHdr: "iHdr < length (Header r)" using False by (simp add: iHdr_def)
  have loop: "morfHeader_loop (Header r) (Header r) iHdr draw2 draw3 draw4 =
     (case randInt (length vals) draw2 of
        Inl e \<Rightarrow> Inl e
      | Inr iVals \<Rightarrow> morfHeader_vals (Header r) (fst (Header r ! iHdr)) vals 0 iVals draw3 draw4)"
    unfolding vals_def by (rule morfHeader_loop_result [OF iHdr])
  show ?thesis
  proof (cases "vals = []")
    case True
    then show ?thesis using False loop
      by (simp add: morfHeader_def randInt_def morfHeader_selected_def
            iHdr_def [symmetric] vals_def [symmetric])
  next
    case nonempty: False
    define iVals where "iVals = draw2 mod length vals"
    have iVals: "iVals < 0 + length vals" using nonempty by (simp add: iVals_def)
    have sel: "morfHeader_selected r draw1 draw2 = Some (vals ! iVals)"
      using False nonempty
      by (simp add: morfHeader_selected_def iHdr_def [symmetric] vals_def [symmetric]
            iVals_def Let_def)
    have run: "morfHeader r draw1 draw2 draw3 draw4 =
      (case morfHeader_vals (Header r) (fst (Header r ! iHdr)) vals 0 iVals draw3 draw4 of
         Inl e \<Rightarrow> Inl e | Inr h \<Rightarrow> Inr (r\<lparr>Header := h\<rparr>))"
      using False nonempty loop
      by (simp add: morfHeader_def randInt_def iHdr_def [symmetric] iVals_def)
    from morfHeader_vals_result [OF _ iVals, of "Header r" "fst (Header r ! iHdr)" draw3 draw4]
    show ?thesis using False unfolding run sel by (auto split: if_splits)
  qed
qed

theorem morfHeader_not_total_witness:
  "morfHeader_selected example_request 0 1 = Some [] \<and>
   morfHeader example_request 0 1 0 65 = Inl RandIntArgument \<and>
   morfHeader (example_request\<lparr>Header := []\<rparr>) 0 0 0 65 = Inl RandIntArgument \<and>
   morfHeader_selected example_request 0 0 = Some ''text/html'' \<and>
   (\<exists>r'. morfHeader example_request 0 0 0 65 = Inr r')"
  using morfHeader_not_total [of example_request 0 1 0 65]
    morfHeader_not_total [of "example_request\<lparr>Header := []\<rparr>" 0 0 0 65]
    morfHeader_not_total [of example_request 0 0 0 65]
  by (simp add: morfHeader_selected_def example_request_def)

subsection \<open>The expiration queue keeps its index fields\<close>

lemma indexed_iff: "indexed teq \<longleftrightarrow> (\<forall>i<length teq. index (teq ! i) = int i)"
proof
  assume a: "indexed teq"
  show "\<forall>i<length teq. index (teq ! i) = int i"
  proof (intro allI impI)
    fix i assume i: "i < length teq"
    have "map index teq ! i = map int [0..<length teq] ! i" using a by (simp add: indexed_def)
    then show "index (teq ! i) = int i" using i by simp
  qed
next
  assume "\<forall>i<length teq. index (teq ! i) = int i"
  then show "indexed teq" unfolding indexed_def by (intro nth_equalityI) simp_all
qed

lemma indexed_root: "indexed (item # rest) \<Longrightarrow> index item = 0"
  by (simp add: indexed_def upt_rec)

lemma length_Swap [simp]: "length (Swap h i j) = length h"
  by (simp add: Swap_def Let_def)

lemma Swap_indexed:
  "indexed h \<Longrightarrow> i < length h \<Longrightarrow> j < length h \<Longrightarrow> indexed (Swap h i j)"
  by (auto simp: indexed_iff Swap_def Let_def nth_list_update)

lemma heap_up_root: "heap_up h 0 = h"
  by (simp add: heap_up.simps)

lemma heap_up_length [simp]: "length (heap_up h j) = length h"
proof (induction h j rule: heap_up.induct)
  case (1 h j)
  then show ?case by (subst heap_up.simps) (auto simp: Let_def)
qed

lemma heap_up_indexed: "indexed h \<Longrightarrow> j < length h \<Longrightarrow> indexed (heap_up h j)"
proof (induction h j rule: heap_up.induct)
  case (1 h j)
  show ?case
  proof (cases "(j - 1) div 2 = j \<or> \<not> Less h j ((j - 1) div 2)")
    case True
    then show ?thesis using "1.prems" by (subst heap_up.simps) (auto simp: Let_def)
  next
    case False
    have p: "(j - 1) div 2 < length h" using "1.prems" by simp
    have "indexed (heap_up (Swap h ((j - 1) div 2) j) ((j - 1) div 2))"
      using "1.IH" [OF refl] False p "1.prems" by (simp add: Swap_indexed)
    then show ?thesis using False by (subst heap_up.simps) (simp add: Let_def)
  qed
qed

lemma heap_down_loop_length [simp]: "length (fst (heap_down_loop h i n)) = length h"
proof (induction h i n rule: heap_down_loop.induct)
  case (1 h i n)
  then show ?case by (subst heap_down_loop.simps) (auto simp: Let_def)
qed

lemma heap_down_loop_indexed:
  "indexed h \<Longrightarrow> i < n \<Longrightarrow> n \<le> length h \<Longrightarrow> indexed (fst (heap_down_loop h i n))"
proof (induction h i n rule: heap_down_loop.induct)
  case (1 h i n)
  define j1 where "j1 = 2 * i + 1"
  define j where "j = (if j1 + 1 < n \<and> Less h (j1 + 1) j1 then j1 + 1 else j1)"
  show ?case
  proof (cases "j1 \<ge> n \<or> \<not> Less h j i")
    case True
    then show ?thesis using "1.prems"
      by (subst heap_down_loop.simps) (auto simp: Let_def j1_def j_def)
  next
    case False
    then have j: "j < n" by (auto simp: j_def)
    have "indexed (Swap h i j)" using "1.prems" j by (simp add: Swap_indexed)
    then have "indexed (fst (heap_down_loop (Swap h i j) j n))"
      using "1.IH" [OF j1_def _ j_def] False j "1.prems" by simp
    moreover have "heap_down_loop h i n = heap_down_loop (Swap h i j) j n"
      using False unfolding j_def j1_def
      by (subst heap_down_loop.simps) (auto simp: Let_def split: if_splits)
    ultimately show ?thesis by simp
  qed
qed

lemma Push_indexed: "indexed h \<Longrightarrow> indexed (Push h x)"
  by (auto simp: indexed_iff Push_def nth_append)

lemma heap_Push_length [simp]: "length (heap_Push h x) = Suc (length h)"
  by (simp add: heap_Push_def Let_def Push_def)

lemma heap_Push_indexed: "indexed h \<Longrightarrow> indexed (heap_Push h x)"
proof -
  assume "indexed h"
  then have "indexed (Push h x)" by (rule Push_indexed)
  moreover have "length (Push h x) - 1 < length (Push h x)" by (simp add: Push_def)
  ultimately show ?thesis unfolding heap_Push_def Let_def by (rule heap_up_indexed)
qed

lemma siftRoot_eq: "siftRoot h = fst (heap_down_loop h 0 (length h))"
  by (simp add: siftRoot_def heap_down_def case_prod_beta)

lemma siftRoot_length [simp]: "length (siftRoot h) = length h"
  by (simp add: siftRoot_eq)

lemma siftRoot_indexed:
  "indexed (item # rest) \<Longrightarrow> indexed (siftRoot (item\<lparr>token := tok, time := t\<rparr> # rest))"
proof -
  assume "indexed (item # rest)"
  then have "indexed (item\<lparr>token := tok, time := t\<rparr> # rest)" by (simp add: indexed_def)
  then have "indexed (fst (heap_down_loop (item\<lparr>token := tok, time := t\<rparr> # rest) 0
                (length (item\<lparr>token := tok, time := t\<rparr> # rest))))"
    by (rule heap_down_loop_indexed) simp_all
  then show ?thesis by (simp add: siftRoot_eq)
qed

lemma heap_Fix_root: "h \<noteq> [] \<Longrightarrow> heap_Fix h 0 = Inr (siftRoot h)"
  by (simp add: heap_Fix_def siftRoot_def heap_up_root case_prod_beta)

lemma update_root:
  "index item = 0 \<Longrightarrow>
   update (item # rest) 0 tok t = Inr (siftRoot (item\<lparr>token := tok, time := t\<rparr> # rest))"
  by (simp add: update_def heap_Fix_root)


subsection \<open>The cache update\<close>


lemma cacheResponse_newKey_cache:
  "cacheResponse_newKey reqMgr k sk e t = Inr reqMgr' \<Longrightarrow>
   CacheData reqMgr' = (CacheData reqMgr)(k \<mapsto> sk)"
  by (auto simp: cacheResponse_newKey_def Let_def
           split: if_splits option.splits sum.splits prod.splits)

lemma cacheResponse_newKey_root:
  assumes idx: "indexed (item # rest)" and heap: "tokensExpirationList reqMgr = item # rest"
  shows "cacheResponse_newKey reqMgr k sk e tNow =
    Inr (reqMgr\<lparr>CacheData := (CacheData reqMgr)(k \<mapsto> sk),
               tokensExpirationList :=
                 (if token item = k then siftRoot (item\<lparr>token := k, time := e\<rparr> # rest)
                  else if time item \<le> tNow then
                    (case CacheData reqMgr (token item) of
                       None \<Rightarrow> siftRoot (item\<lparr>token := k, time := e\<rparr> # rest)
                     | Some firstKey \<Rightarrow>
                         if Expiration firstKey \<le> tNow
                         then siftRoot (item\<lparr>token := k, time := e\<rparr> # rest)
                         else heap_Push (siftRoot (item\<lparr>time := Expiration firstKey\<rparr> # rest))
                                \<lparr>time = e, token = k, index = 0\<rparr>)
                  else heap_Push (item # rest) \<lparr>time = e, token = k, index = 0\<rparr>)\<rparr>)"
proof -
  have i0: "index item = 0" using idx by (rule indexed_root)
  have same: "item\<lparr>token := token item, time := t\<rparr> = item\<lparr>time := t\<rparr>" for t by simp
  show ?thesis
    unfolding cacheResponse_newKey_def heap
    by (simp add: Let_def update_root [OF i0] same split: option.splits)
qed

text \<open>
  C6. When the production-session key is empty or the status of the staging response is
  400 or more, \<open>cacheResponse\<close> returns with the manager as it was: the cache and the
  expiration queue are unchanged and nothing is logged.
\<close>

theorem cacheResponse_rejected:
  "prodSessionKey = [] \<or> StatusCode resp \<ge> 400 \<Longrightarrow>
   cacheResponse reqMgr prodSessionKey resp prodKeyExpiration now now' = Inr (reqMgr, [])"
  by (auto simp: cacheResponse_def)

theorem cacheResponse_rejected_witness:
  "cacheResponse example_manager [] example_response 7 8 9 = Inr (example_manager, []) \<and>
   StatusCode (example_response\<lparr>StatusCode := 404\<rparr>) \<ge> 400 \<and>
   cacheResponse example_manager ''PROD2'' (example_response\<lparr>StatusCode := 404\<rparr>) 7 8 9 =
     Inr (example_manager, [])"
  using cacheResponse_rejected [of "[]" example_response example_manager 7 8 9]
    cacheResponse_rejected [of "''PROD2''" "example_response\<lparr>StatusCode := 404\<rparr>" example_manager 7 8 9]
  by simp

text \<open>
  C4. For a call of \<open>cacheResponse\<close> with a non-empty key and a status below 400, let
  the scan of the staging cookies leave the entry \<open>stagKey\<close>, the captured expiry
  \<open>stagKeyExpiration\<close> and the captured \<open>Max-Age\<close>. If the entry's session key is
  empty, the expiry is not in the future and the \<open>Max-Age\<close> is not positive, the entry of
  that key is deleted, the rest of the manager is untouched and the function returns.
  Hence whenever the call returns with an entry under that key, the entry is not one with
  an empty session key and no live expiration.
\<close>

theorem cacheResponse_logout:
  assumes "prodSessionKey \<noteq> []" and "StatusCode resp < 400"
    and "cacheResponse_cookies (RespCookies resp)
           (case CacheData reqMgr prodSessionKey of None \<Rightarrow> new_StagKeys | Some k \<Rightarrow> k, 0, 0) =
         (stagKey, stagKeyExpiration, stagKeyMaxAge)"
  shows "(sessionKey stagKey = [] \<and> \<not> stagKeyExpiration > UnixMs now' \<and> stagKeyMaxAge \<le> 0 \<longrightarrow>
           cacheResponse reqMgr prodSessionKey resp prodKeyExpiration now now' =
             Inr (reqMgr\<lparr>CacheData := (CacheData reqMgr)(prodSessionKey := None)\<rparr>,
                  [StagKeyExpiration stagKeyExpiration])) \<and>
         (\<forall>reqMgr' logs entry.
            cacheResponse reqMgr prodSessionKey resp prodKeyExpiration now now' = Inr (reqMgr', logs) \<longrightarrow>
            CacheData reqMgr' prodSessionKey = Some entry \<longrightarrow>
            sessionKey entry = sessionKey stagKey \<and>
            \<not> (sessionKey entry = [] \<and> \<not> stagKeyExpiration > UnixMs now' \<and> stagKeyMaxAge \<le> 0))"
proof (cases "CacheData reqMgr prodSessionKey")
  case None
  with assms show ?thesis
    by (auto simp: cacheResponse_def Let_def dest!: cacheResponse_newKey_cache
             split: if_splits sum.splits)
next
  case (Some k)
  with assms show ?thesis
    by (auto simp: cacheResponse_def Let_def split: if_splits)
qed

theorem cacheResponse_logout_witness:
  "cacheResponse example_known ''PROD2'' example_logout 0 4000000 5000000 =
     Inr (example_known\<lparr>CacheData := (CacheData example_known)(''PROD2'' := None)\<rparr>,
          [StagKeyExpiration 1])"
proof -
  have key: "''PROD2'' \<noteq> []" by simp
  have status: "StatusCode example_logout < 400" by (simp add: example_logout_def)
  have scan: "cacheResponse_cookies (RespCookies example_logout)
           (case CacheData example_known ''PROD2'' of None \<Rightarrow> new_StagKeys | Some k \<Rightarrow> k, 0, 0) =
         (\<lparr>sessionKey = [], sessionTtl = [], csrfToken = ''CT2'', Expiration = 77\<rparr>, 1, - 1)"
    by (simp add: example_logout_def example_known_def example_manager_def
          EqualFold_def toLower_def UnixMs_def)
  have out: "sessionKey \<lparr>sessionKey = [], sessionTtl = [], csrfToken = ''CT2'', Expiration = 77\<rparr> = [] \<and>
             \<not> 1 > UnixMs 5000000 \<and> (- 1 :: int) \<le> 0"
    by (simp add: UnixMs_def)
  from cacheResponse_logout [OF key status scan, where now' = 5000000 and now = 4000000
      and prodKeyExpiration = 0]
  show ?thesis using out by blast
qed



text \<open>
  From \<open>Init\<close> on, every queue the cache update meets has its index fields in order, and
  on such a queue the update does not panic.
\<close>

lemma Init_indexed: "indexed (tokensExpirationList (Init reqMgr i64rand now))"
  by (simp add: Init_def indexed_def)

lemma cacheResponse_newKey_indexed:
  assumes "indexed (tokensExpirationList reqMgr)"
  shows "\<exists>reqMgr'. cacheResponse_newKey reqMgr k sk e tNow = Inr reqMgr' \<and>
           indexed (tokensExpirationList reqMgr')"
proof (cases "tokensExpirationList reqMgr")
  case Nil
  have "indexed (heap_Push [] \<lparr>time = e, token = k, index = 0\<rparr>)"
    by (rule heap_Push_indexed) (simp add: indexed_def)
  then show ?thesis using Nil by (simp add: cacheResponse_newKey_def Let_def)
next
  case (Cons item rest)
  have idx: "indexed (item # rest)" using assms Cons by simp
  have same: "item\<lparr>token := token item, time := t\<rparr> = item\<lparr>time := t\<rparr>" for t by simp
  have idx1: "indexed (siftRoot (item\<lparr>token := k', time := t\<rparr> # rest))" for k' t
    using idx by (rule siftRoot_indexed)
  have idx2: "indexed (heap_Push (siftRoot (item\<lparr>time := t\<rparr> # rest)) x)" for t x
    using idx1 [where k' = "token item" and t = t] unfolding same by (rule heap_Push_indexed)
  have idx3: "indexed (heap_Push (item # rest) x)" for x
    using idx by (rule heap_Push_indexed)
  show ?thesis
    unfolding cacheResponse_newKey_root [OF idx Cons]
    by (simp add: idx1 idx2 idx3 split: option.splits)
qed

lemma cacheResponse_no_panic:
  assumes "indexed (tokensExpirationList reqMgr)"
  shows "\<exists>reqMgr' logs. cacheResponse reqMgr k resp e now now' = Inr (reqMgr', logs) \<and>
           indexed (tokensExpirationList reqMgr')"
proof -
  have no: "cacheResponse_newKey reqMgr k sk e' t \<noteq> Inl p" for sk e' t p
    using cacheResponse_newKey_indexed [OF assms, of k sk e' t] by auto
  have keep: "indexed (tokensExpirationList m')"
    if "cacheResponse_newKey reqMgr k sk e' t = Inr m'" for sk e' t m'
    using cacheResponse_newKey_indexed [OF assms, of k sk e' t] that by auto
  show ?thesis
    using assms
    by (auto simp: cacheResponse_def Let_def no keep split: prod.splits option.splits sum.splits)
qed

subsection \<open>The pending queue\<close>




subsection \<open>The staging request\<close>

lemma fixCookies_filter_map:
  "fixCookies sk ccs added =
     added @ filter (\<lambda>cc. Value cc \<noteq> [])
       (map (\<lambda>cc. if EqualFold (Name cc) ''csrfToken'' then cc\<lparr>Value := csrfToken sk\<rparr>
                   else if EqualFold (Name cc) ''sessionKey'' then cc\<lparr>Value := sessionKey sk\<rparr>
                   else if EqualFold (Name cc) ''sessionTtl'' then cc\<lparr>Value := sessionTtl sk\<rparr>
                   else cc) ccs)"
  by (induction ccs arbitrary: added) (simp_all add: Let_def)

text \<open>
  C2, as the code has it. When the staging request is built, its cookies are these. If the
  cache has an entry for the inbound production key: each inbound cookie named, without
  regard to case, \<open>csrfToken\<close>, \<open>sessionKey\<close> or \<open>sessionTtl\<close> takes the entry's value of
  that name, empty or not; the cookies whose value is then empty are dropped and the
  others are added in their order. If the cache has no entry for that key, no cookie is
  added. When \<open>http.NewRequest\<close> fails there is no staging request.
\<close>

theorem buildForwardRequest_cookies:
  "map_option Cookies (fst (snd (buildForwardRequest accepts urls reqMgr r prodSessionKey stagBody))) =
    (if accepts (Method r) (Path (urls (URL r))) then
       Some (case CacheData reqMgr prodSessionKey of
               None \<Rightarrow> []
             | Some sk \<Rightarrow>
                 filter (\<lambda>cc. Value cc \<noteq> [])
                   (map (\<lambda>cc. if EqualFold (Name cc) ''csrfToken'' then cc\<lparr>Value := csrfToken sk\<rparr>
                               else if EqualFold (Name cc) ''sessionKey'' then cc\<lparr>Value := sessionKey sk\<rparr>
                               else if EqualFold (Name cc) ''sessionTtl'' then cc\<lparr>Value := sessionTtl sk\<rparr>
                               else cc) (Cookies r)))
     else None)"
  by (simp add: buildForwardRequest_def Let_def fixCookies_filter_map split: option.splits)

theorem buildForwardRequest_cookies_witness:
  "example_accepts (Method example_request) (Path (example_urls (URL example_request))) \<and>
   map_option Cookies (fst (snd
     (buildForwardRequest example_accepts example_urls example_known
        (example_request\<lparr>Cookies :=
           [\<lparr>Name = ''SESSIONKEY'', Value = ''PROD2'', Expires = zeroTime, MaxAge = 0\<rparr>,
            \<lparr>Name = ''sessionTtl'', Value = ''600'', Expires = zeroTime, MaxAge = 0\<rparr>,
            \<lparr>Name = ''lang'', Value = ''en'', Expires = zeroTime, MaxAge = 0\<rparr>]\<rparr>)
        ''PROD2'' None))) =
   Some [\<lparr>Name = ''SESSIONKEY'', Value = ''STG2'', Expires = zeroTime, MaxAge = 0\<rparr>,
         \<lparr>Name = ''lang'', Value = ''en'', Expires = zeroTime, MaxAge = 0\<rparr>]"
  using buildForwardRequest_cookies [of example_accepts example_urls example_known
      "example_request\<lparr>Cookies :=
           [\<lparr>Name = ''SESSIONKEY'', Value = ''PROD2'', Expires = zeroTime, MaxAge = 0\<rparr>,
            \<lparr>Name = ''sessionTtl'', Value = ''600'', Expires = zeroTime, MaxAge = 0\<rparr>,
            \<lparr>Name = ''lang'', Value = ''en'', Expires = zeroTime, MaxAge = 0\<rparr>]\<rparr>"
      "''PROD2''" None]
  by (simp add: example_accepts_def example_urls_def example_request_def example_known_def
        example_manager_def EqualFold_def toLower_def)

text \<open>
  The cookies of the staging request are not those of the specification's wording: with no
  entry for the inbound key the wording adds every cookie and the code none; with an
  entry whose session key is empty the wording keeps the inbound \<open>sessionKey\<close> cookie and
  the code drops it.
\<close>

theorem buildForwardRequest_cookies_differ:
  "map_option Cookies (fst (snd
     (buildForwardRequest example_accepts example_urls example_manager example_request ''PROD1'' None))) =
     Some [] \<and>
   spec_rebuildCookies (CacheData example_manager ''PROD1'') (Cookies example_request) =
     Cookies example_request \<and>
   Cookies example_request \<noteq> [] \<and>
   map_option Cookies (fst (snd
     (buildForwardRequest example_accepts example_urls example_manager example_request [] None))) =
     Some [\<lparr>Name = ''lang'', Value = ''en'', Expires = zeroTime, MaxAge = 0\<rparr>] \<and>
   spec_rebuildCookies (CacheData example_manager []) (Cookies example_request) =
     [\<lparr>Name = ''sessionKey'', Value = ''PROD1'', Expires = zeroTime, MaxAge = 0\<rparr>,
      \<lparr>Name = ''lang'', Value = ''en'', Expires = zeroTime, MaxAge = 0\<rparr>]"
  by (simp add: buildForwardRequest_def Let_def spec_rebuildCookies_def spec_cookie_def
        example_accepts_def example_urls_def example_request_def example_manager_def
        new_StagKeys_def EqualFold_def toLower_def)

text \<open>
  C10. \<open>buildForwardRequest\<close> gives the staging request the manager's own staging URL
  pointer and writes the path of the inbound request through it. So after every call that
  builds a request, the URL the manager's \<open>UrlStaging\<close> points to has the path of that
  request and is otherwise as before; this store is what the next call starts from, the
  configured base path is not put back; and the query of the staging request is the query
  of the staging base URL, whatever the query of the inbound request. A call in which
  \<open>http.NewRequest\<close> fails builds no request and leaves the URLs alone.
\<close>

theorem buildForwardRequest_shared_url:
  "if accepts (Method r) (Path (urls (URL r))) then
     (\<exists>stagReq.
        buildForwardRequest accepts urls reqMgr r prodSessionKey stagBody =
          (urls(UrlStaging reqMgr := (urls (UrlStaging reqMgr))\<lparr>Path := Path (urls (URL r))\<rparr>),
           Some stagReq, []) \<and>
        URL stagReq = UrlStaging reqMgr \<and>
        Path ((fst (buildForwardRequest accepts urls reqMgr r prodSessionKey stagBody))
                (UrlStaging reqMgr)) = Path (urls (URL r)) \<and>
        RawQuery ((fst (buildForwardRequest accepts urls reqMgr r prodSessionKey stagBody))
                    (URL stagReq)) = RawQuery (urls (UrlStaging reqMgr)))
   else buildForwardRequest accepts urls reqMgr r prodSessionKey stagBody =
          (urls, None, [NewRequestError])"
  by (simp add: buildForwardRequest_def Let_def)

theorem buildForwardRequest_shared_url_witness:
  "example_accepts (Method example_request) (Path (example_urls (URL example_request))) \<and>
   Path (example_urls (UrlStaging example_manager)) = ''/'' \<and>
   RawQuery (example_urls (URL example_request)) = ''user=7'' \<and>
   (\<exists>stagReq.
      fst (snd (buildForwardRequest example_accepts example_urls example_manager example_request
                  ''PROD1'' None)) = Some stagReq \<and>
      URL stagReq = UrlStaging example_manager \<and>
      Path ((fst (buildForwardRequest example_accepts example_urls example_manager example_request
                    ''PROD1'' None)) (UrlStaging example_manager)) = ''/api/login'' \<and>
      RawQuery ((fst (buildForwardRequest example_accepts example_urls example_manager
                        example_request ''PROD1'' None)) (URL stagReq)) = ''v=1'')"
proof -
  have ok: "example_accepts (Method example_request) (Path (example_urls (URL example_request)))"
    by (simp add: example_accepts_def example_urls_def example_request_def)
  have vals: "Path (example_urls (UrlStaging example_manager)) = ''/'' \<and>
      RawQuery (example_urls (URL example_request)) = ''user=7'' \<and>
      Path (example_urls (URL example_request)) = ''/api/login'' \<and>
      RawQuery (example_urls (UrlStaging example_manager)) = ''v=1''"
    by (simp add: example_urls_def example_request_def example_manager_def)
  from buildForwardRequest_shared_url [where accepts = example_accepts and urls = example_urls
      and r = example_request and reqMgr = example_manager and prodSessionKey = "''PROD1''"
      and stagBody = None]
  obtain stagReq where
    "buildForwardRequest example_accepts example_urls example_manager example_request ''PROD1'' None =
       (example_urls(UrlStaging example_manager :=
          (example_urls (UrlStaging example_manager))\<lparr>Path := Path (example_urls (URL example_request))\<rparr>),
        Some stagReq, [])"
    and "URL stagReq = UrlStaging example_manager"
    and "Path ((fst (buildForwardRequest example_accepts example_urls example_manager example_request
                    ''PROD1'' None)) (UrlStaging example_manager)) =
         Path (example_urls (URL example_request))"
    and "RawQuery ((fst (buildForwardRequest example_accepts example_urls example_manager
                        example_request ''PROD1'' None)) (URL stagReq)) =
         RawQuery (example_urls (UrlStaging example_manager))"
    unfolding if_P [OF ok] by blast
  then show ?thesis using ok vals by simp
qed

subsection \<open>The key of the cache update\<close>

text \<open>
  C3, as the code has it. For every pending record made by \<open>forwardHandler\<close> whose
  staging dispatch succeeds, \<open>sendRequest\<close> is the call of \<open>cacheResponse\<close> with the
  staging response and, as session key and expiration, the value and the \<open>Expires\<close> of the
  \<open>sessionKey\<close> cookie that the production response set at intercept time (the empty key
  and 0 when it set none). The key of the inbound \<open>sessionKey\<close> cookie is the record's
  \<open>requestKey\<close>, which this call does not use.
\<close>

theorem sendRequest_response_key:
  assumes "forwardHandler parseTime urls reqMgr r respHdr stagBody = Some sendReq"
  shows "pr_requestKey sendReq = fst (getSessionKey (Cookies r)) \<and>
         pr_sessionKey sendReq = fst (getRespSessionKey parseTime (Header_index respHdr ''Set-Cookie'')) \<and>
         pr_keyExpires sendReq = snd (getRespSessionKey parseTime (Header_index respHdr ''Set-Cookie'')) \<and>
         sendRequest reqMgr' sendReq (Some resp) now now' =
           cacheResponse reqMgr'
             (fst (getRespSessionKey parseTime (Header_index respHdr ''Set-Cookie''))) resp
             (snd (getRespSessionKey parseTime (Header_index respHdr ''Set-Cookie''))) now now'"
  using assms
  by (auto simp: forwardHandler_def sendRequest_def Let_def split: if_splits prod.splits)

lemma example_forwardHandler:
  "forwardHandler example_parseTime example_urls example_manager example_request example_respHdr None =
     Some example_pending"
  by (simp add: forwardHandler_def example_urls_def example_manager_def example_request_def
        example_respHdr_def example_pending_def example_parseTime_def
        EqualFold_def toLower_def TrimSpace_def isSpace_def UnixMs_def)

lemma example_getRespSessionKey:
  "getRespSessionKey example_parseTime (Header_index example_respHdr ''Set-Cookie'') =
     (''PROD2'', 1577836800000)"
  by (simp add: example_respHdr_def example_parseTime_def
        EqualFold_def toLower_def TrimSpace_def isSpace_def UnixMs_def)

theorem sendRequest_response_key_witness:
  "forwardHandler example_parseTime example_urls example_manager example_request example_respHdr None =
     Some example_pending \<and>
   sendRequest example_manager example_pending (Some example_response) 4000000 6000000 =
     cacheResponse example_manager ''PROD2'' example_response 1577836800000 4000000 6000000"
  using sendRequest_response_key [OF example_forwardHandler, of example_manager example_response
      4000000 6000000]
  unfolding example_getRespSessionKey
  by (simp add: example_forwardHandler)

text \<open>
  The session key of the call is not the key observed on the inbound request: the request
  comes in with \<open>PROD1\<close>, the production response sets \<open>PROD2\<close>, and the update is the one
  for \<open>PROD2\<close>, which differs from the one for \<open>PROD1\<close>.
\<close>

theorem sendRequest_inbound_key_differs:
  "forwardHandler example_parseTime example_urls example_manager example_request example_respHdr None =
     Some example_pending \<and>
   fst (getSessionKey (Cookies example_request)) = ''PROD1'' \<and>
   pr_sessionKey example_pending = ''PROD2'' \<and>
   sendRequest example_manager example_pending (Some example_response) 4000000 6000000 \<noteq>
     cacheResponse example_manager ''PROD1'' example_response (pr_keyExpires example_pending)
       4000000 6000000"
proof -
  have a: "fst (getSessionKey (Cookies example_request)) = ''PROD1''"
    by (simp add: example_request_def EqualFold_def toLower_def)
  have b: "pr_sessionKey example_pending = ''PROD2''"
    by (simp add: example_pending_def)
  have scan: "cacheResponse_cookies (RespCookies example_response) (new_StagKeys, 0, 0) =
         (\<lparr>sessionKey = ''STG2'', sessionTtl = [], csrfToken = [], Expiration = 0\<rparr>,
          UnixMs zeroTime, 3600)"
    by (simp add: example_response_def new_StagKeys_def EqualFold_def toLower_def)
  have status: "StatusCode example_response = 200" by (simp add: example_response_def)
  have empty: "tokensExpirationList example_manager = []" by (simp add: example_manager_def)
  have run: "cacheResponse example_manager k example_response 1577836800000 4000000 6000000 =
      Inr (example_manager
             \<lparr>CacheData := (CacheData example_manager)
                (k \<mapsto> \<lparr>sessionKey = ''STG2'', sessionTtl = [], csrfToken = [],
                         Expiration = 1577836800000\<rparr>),
              tokensExpirationList := [\<lparr>time = 1577836800000, token = k, index = 0\<rparr>]\<rparr>, [])"
    if "k \<noteq> []" and "CacheData example_manager k = None" for k
    using that
    by (simp add: cacheResponse_def cacheResponse_newKey_def scan status empty Let_def
          heap_Push_def Push_def heap_up_root)
  have new: "CacheData example_manager ''PROD1'' = None \<and> CacheData example_manager ''PROD2'' = None"
    by (simp add: example_manager_def)
  have r2: "cacheResponse example_manager ''PROD2'' example_response 1577836800000 4000000 6000000 =
      Inr (example_manager
             \<lparr>CacheData := (CacheData example_manager)
                (''PROD2'' \<mapsto> \<lparr>sessionKey = ''STG2'', sessionTtl = [], csrfToken = [],
                         Expiration = 1577836800000\<rparr>),
              tokensExpirationList := [\<lparr>time = 1577836800000, token = ''PROD2'', index = 0\<rparr>]\<rparr>, [])"
    using new by (intro run) simp_all
  have r1: "cacheResponse example_manager ''PROD1'' example_response 1577836800000 4000000 6000000 =
      Inr (example_manager
             \<lparr>CacheData := (CacheData example_manager)
                (''PROD1'' \<mapsto> \<lparr>sessionKey = ''STG2'', sessionTtl = [], csrfToken = [],
                         Expiration = 1577836800000\<rparr>),
              tokensExpirationList := [\<lparr>time = 1577836800000, token = ''PROD1'', index = 0\<rparr>]\<rparr>, [])"
    using new by (intro run) simp_all
  have "cacheResponse example_manager ''PROD2'' example_response 1577836800000 4000000 6000000 \<noteq>
        cacheResponse example_manager ''PROD1'' example_response 1577836800000 4000000 6000000"
  proof
    assume "cacheResponse example_manager ''PROD2'' example_response 1577836800000 4000000 6000000 =
            cacheResponse example_manager ''PROD1'' example_response 1577836800000 4000000 6000000"
    then have "map_sum id (\<lambda>p. tokensExpirationList (fst p))
                 (cacheResponse example_manager ''PROD2'' example_response 1577836800000 4000000 6000000) =
               map_sum id (\<lambda>p. tokensExpirationList (fst p))
                 (cacheResponse example_manager ''PROD1'' example_response 1577836800000 4000000 6000000)"
      by (rule arg_cong)
    then show False unfolding r1 r2 by simp
  qed
  then show ?thesis
    using a b example_forwardHandler
    by (simp add: sendRequest_def example_pending_def)
qed

subsection \<open>Request ids\<close>

lemma sint_succ:
  fixes w :: "64 word"
  assumes "sint w < 2 ^ 63 - 1"
  shows "sint (w + 1) = sint w + 1"
proof -
  have lo: "- (2 ^ 63) \<le> sint w" using sint_ge [of w] by simp
  have "sint (w + 1) = signed_take_bit 63 (sint w + 1)"
    by (simp add: sint_word_ariths)
  also have "\<dots> = sint w + 1"
    using lo assms by (intro signed_take_bit_int_eq_self) simp_all
  finally show ?thesis .
qed

text \<open>
  C8, as the code has it. At initialization the counter is 0 and the request-id prefix is
  the hexadecimal text of the sum, modulo \<open>2^64\<close>, of the random integer and the current
  time in nanoseconds, followed by \<open>-\<close>. Each call of \<open>createReqId\<close> adds one to the
  counter, keeps the prefix and returns the prefix followed by the new counter in
  hexadecimal; as long as the counter is below the largest \<open>int64\<close> the new value is the
  old one plus one, so the values increase strictly and none is used twice.
\<close>

theorem createReqId_counter:
  "forwardPrefix (Init reqMgr i64rand now) = FormatUint16 (i64rand + now) @ ''-'' \<and>
   unat (i64rand + now) = (unat i64rand + unat now) mod 2 ^ 64 \<and>
   cacheId (Init reqMgr i64rand now) = 0 \<and>
   cacheId (fst (createReqId reqMgr)) = cacheId reqMgr + 1 \<and>
   forwardPrefix (fst (createReqId reqMgr)) = forwardPrefix reqMgr \<and>
   snd (createReqId reqMgr) = forwardPrefix reqMgr @ FormatInt16 (cacheId reqMgr + 1) \<and>
   (sint (cacheId reqMgr) < 2 ^ 63 - 1 \<longrightarrow>
      sint (cacheId (fst (createReqId reqMgr))) = sint (cacheId reqMgr) + 1)"
  using sint_succ [of "cacheId reqMgr"]
  by (simp add: Init_def createReqId_def Let_def unat_word_ariths)

theorem createReqId_counter_witness:
  "sint (cacheId example_manager) < 2 ^ 63 - 1 \<and>
   sint (cacheId (fst (createReqId example_manager))) = 1 \<and>
   snd (createReqId example_manager) = ''0-1'' \<and>
   forwardPrefix (Init example_manager 81985529216486895 1577836800000000000) =
     ''1708df9d4335cdef-''"
  using createReqId_counter [of example_manager 81985529216486895 1577836800000000000]
  by (simp add: example_manager_def FormatUint16_def FormatInt16_def hexDigits.simps hexDigit_def)

text \<open>
  The prefix is a sum and not an exclusive or, and at the largest \<open>int64\<close> the counter
  wraps to the least one instead of increasing.
\<close>

theorem forwardPrefix_not_xor:
  "forwardPrefix (Init example_manager 81985529216486895 1577836800000000000) =
     ''1708df9d4335cdef-'' \<and>
   spec_forwardPrefix 81985529216486895 1577836800000000000 = ''14c6df523021cdef-'' \<and>
   sint (cacheId (example_manager\<lparr>cacheId := 9223372036854775807\<rparr>)) = 9223372036854775807 \<and>
   sint (cacheId (fst (createReqId (example_manager\<lparr>cacheId := 9223372036854775807\<rparr>)))) =
     - 9223372036854775808"
  by (simp add: Init_def spec_forwardPrefix_def createReqId_def Let_def FormatUint16_def
        hexDigits.simps hexDigit_def)

end
